theory Spec2Isabelle
  imports Main "HOL-Library.Word"
begin

section \<open>Errors of the API machinery\<close>

text \<open>
  The handler of \<^verbatim>\<open>rest.go\<close> builds its errors with \<^verbatim>\<open>errors.NewBadRequest\<close>,
  \<^verbatim>\<open>errors.NewTimeoutError\<close> and \<^verbatim>\<open>errors.NewInternalError\<close>, and inspects the errors of
  its collaborators with \<^verbatim>\<open>errors.IsNotFound\<close>, \<^verbatim>\<open>errors.IsConflict\<close> and \<^verbatim>\<open>Status().Kind\<close>.
  A status error carries its reason, its HTTP code, the kind that \<^verbatim>\<open>Status().Kind\<close> reads and
  its message. A message made by \<^verbatim>\<open>fmt.Sprintf\<close> is kept as the format with its arguments,
  so that what a message reports can be read off the value. The two sentinel errors
  (\<^verbatim>\<open>buildwait.ErrBuildDeleted\<close>, \<^verbatim>\<open>wait.ErrWaitTimeout\<close>) are constructors of their own;
  any other error is a \<open>PlainError\<close>.
\<close>

datatype error =
    StatusError (Reason: string) (Code: nat) (Kind: string) (StatusMessage: message)
  | ErrBuildDeleted
  | ErrWaitTimeout
  | PlainError string
and message = Sprintf string "fmt_arg list"
and fmt_arg = ArgString string | ArgDuration int | ArgError error

definition NewBadRequest :: "message \<Rightarrow> error" where
  "NewBadRequest m = StatusError ''BadRequest'' 400 [] m"

definition NewTimeoutError :: "message \<Rightarrow> int \<Rightarrow> error" where
  "NewTimeoutError m retryAfterSeconds = StatusError ''Timeout'' 504 [] m"

definition NewInternalError :: "error \<Rightarrow> error" where
  "NewInternalError er =
     StatusError ''InternalError'' 500 [] (Sprintf ''Internal error occurred: %v'' [ArgError er])"

fun IsNotFound :: "error \<Rightarrow> bool" where
  "IsNotFound (StatusError reason _ _ _) = (reason = ''NotFound'')"
| "IsNotFound _ = False"

fun IsConflict :: "error \<Rightarrow> bool" where
  "IsConflict (StatusError reason _ _ _) = (reason = ''Conflict'')"
| "IsConflict _ = False"

text \<open>The arguments a message was formatted from.\<close>

fun message_args :: "message \<Rightarrow> fmt_arg list" where
  "message_args (Sprintf _ args) = args"

fun error_args :: "error \<Rightarrow> fmt_arg list" where
  "error_args (StatusError _ _ _ m) = message_args m"
| "error_args _ = []"

section \<open>Builds, requests and options\<close>

text \<open>
  Of a build the handler reads the name, the namespace, the phase, reason and message of the
  status, whether the strategy is a custom one, and it writes the cancellation flag. The
  internal build (\<^verbatim>\<open>buildapi.Build\<close>) and the versioned one (\<^verbatim>\<open>buildv1.Build\<close>) have these
  fields alike and share the record.
\<close>

record build =
  Name :: string
  Namespace :: string
  Phase :: string
  StatusReason :: string
  StatusMsg :: string
  Cancelled :: bool
  CustomStrategy :: bool

definition BuildPhaseRunning :: string where "BuildPhaseRunning = ''Running''"
definition BuildPhaseError :: string where "BuildPhaseError = ''Error''"
definition BuildPhaseFailed :: string where "BuildPhaseFailed = ''Failed''"
definition BuildPhaseCancelled :: string where "BuildPhaseCancelled = ''Cancelled''"

record SourceControlUser =
  UserName :: string
  UserEmail :: string

record GitSourceRevision =
  Committer :: SourceControlUser
  Author :: SourceControlUser
  GitMessage :: string
  GitCommit :: string

record SourceRevision =
  Git :: "GitSourceRevision option"

record BinaryBuildSource =
  BinaryAsFile :: string

record BuildTriggerCause =
  CauseMessage :: string

text \<open>A pointer field is an option; the slice \<^verbatim>\<open>TriggeredBy\<close> is an option of a list, \<open>None\<close>
  being the nil slice that \<^verbatim>\<open>Create\<close> tests for.\<close>

record BuildRequest =
  RequestName :: string
  Revision :: "SourceRevision option"
  Binary :: "BinaryBuildSource option"
  TriggeredBy :: "BuildTriggerCause list option"

record BinaryBuildRequestOptions =
  OptionsName :: string
  AsFile :: string
  Commit :: string
  Message :: string
  AuthorName :: string
  AuthorEmail :: string
  CommitterName :: string
  CommitterEmail :: string

definition BuildTriggerCauseManualMsg :: string where
  "BuildTriggerCauseManualMsg = ''Manually triggered''"

definition NoBuildLogsMessage :: string where
  "NoBuildLogsMessage = ''No logs are available.''"

datatype container = GitCloneContainer | CustomBuild

type_synonym payload = "8 word list"

section \<open>The world: a clock and the calls made\<close>

text \<open>
  Every call the handler makes to a collaborator is appended to the trace, with the time it
  was made at, its arguments and what it returned. The clock counts nanoseconds, as
  \<^verbatim>\<open>time.Duration\<close> does.
\<close>

datatype event =
    EvInstantiate int BuildRequest "error + build"
  | EvWaitForRunning int string string int "build \<times> bool \<times> error option"
  | EvRESTClientFor "error option"
  | EvNewSPDYExecutor string string container "error option"
  | EvStream int string string container payload "error option"
  | EvConvert build "error + build"
  | EvUpdateBuild int build "error option"
  | EvGetBuild int string "error + build"

record world =
  now :: int
  trace :: "event list"

definition start_world :: "int \<Rightarrow> world" where
  "start_world t = \<lparr>now = t, trace = []\<rparr>"

definition sleep :: "int \<Rightarrow> world \<Rightarrow> world" where
  "sleep d w = w\<lparr>now := now w + d\<rparr>"

text \<open>
  The configured timeout and the collaborators of the handler (\<^verbatim>\<open>BinaryInstantiateREST\<close>
  and what it reaches; \<^verbatim>\<open>NewBinaryStorage\<close> sets the timeout to five minutes). A call
  that takes time answers with the time it took and its result, as a function of its
  arguments and of the time it is made at: two calls at different times may answer
  differently, which is all the handler can observe of a collaborator's state.
  \<open>BeforeCreateBinary\<close> is \<^verbatim>\<open>rest.BeforeCreate(BinaryStrategy, ctx, options)\<close>, which may
  reject the options or normalise them in place.
\<close>

record env =
  Timeout :: int
  BeforeCreateBinary :: "BinaryBuildRequestOptions \<Rightarrow> error + BinaryBuildRequestOptions"
  InstantiateInternal :: "BuildRequest \<Rightarrow> int \<Rightarrow> nat \<times> (error + build)"
  WaitForRunningBuild :: "string \<Rightarrow> string \<Rightarrow> int \<Rightarrow> int \<Rightarrow> nat \<times> (build \<times> bool \<times> error option)"
  GetBuildPodName :: "build \<Rightarrow> string"
  RESTClientFor :: "error option"
  NewSPDYExecutor :: "string \<Rightarrow> string \<Rightarrow> container \<Rightarrow> error option"
  Stream :: "string \<Rightarrow> string \<Rightarrow> container \<Rightarrow> payload \<Rightarrow> int \<Rightarrow> nat \<times> error option"
  Convert :: "build \<Rightarrow> error + build"
  UpdateBuild :: "build \<Rightarrow> int \<Rightarrow> nat \<times> error option"
  GetBuild :: "string \<Rightarrow> int \<Rightarrow> nat \<times> (error + build)"

definition call_InstantiateInternal :: "env \<Rightarrow> BuildRequest \<Rightarrow> world \<Rightarrow> (error + build) \<times> world" where
  "call_InstantiateInternal e request w =
     (let (d, result) = InstantiateInternal e request (now w)
      in (result, \<lparr>now = now w + int d, trace = trace w @ [EvInstantiate (now w) request result]\<rparr>))"

definition call_WaitForRunningBuild ::
  "env \<Rightarrow> string \<Rightarrow> string \<Rightarrow> int \<Rightarrow> world \<Rightarrow> (build \<times> bool \<times> error option) \<times> world" where
  "call_WaitForRunningBuild e namespace name timeout w =
     (let (d, result) = WaitForRunningBuild e namespace name timeout (now w)
      in (result, \<lparr>now = now w + int d,
                   trace = trace w @ [EvWaitForRunning (now w) namespace name timeout result]\<rparr>))"

definition call_RESTClientFor :: "env \<Rightarrow> world \<Rightarrow> error option \<times> world" where
  "call_RESTClientFor e w =
     (RESTClientFor e, w\<lparr>trace := trace w @ [EvRESTClientFor (RESTClientFor e)]\<rparr>)"

definition call_NewSPDYExecutor ::
  "env \<Rightarrow> string \<Rightarrow> string \<Rightarrow> container \<Rightarrow> world \<Rightarrow> error option \<times> world" where
  "call_NewSPDYExecutor e pod namespace c w =
     (NewSPDYExecutor e pod namespace c,
      w\<lparr>trace := trace w @ [EvNewSPDYExecutor pod namespace c (NewSPDYExecutor e pod namespace c)]\<rparr>)"

definition call_Stream ::
  "env \<Rightarrow> string \<Rightarrow> string \<Rightarrow> container \<Rightarrow> payload \<Rightarrow> world \<Rightarrow> error option \<times> world" where
  "call_Stream e pod namespace c r w =
     (let (d, result) = Stream e pod namespace c r (now w)
      in (result, \<lparr>now = now w + int d,
                   trace = trace w @ [EvStream (now w) pod namespace c r result]\<rparr>))"

definition call_Convert :: "env \<Rightarrow> build \<Rightarrow> world \<Rightarrow> (error + build) \<times> world" where
  "call_Convert e b w = (Convert e b, w\<lparr>trace := trace w @ [EvConvert b (Convert e b)]\<rparr>)"

definition call_UpdateBuild :: "env \<Rightarrow> build \<Rightarrow> world \<Rightarrow> error option \<times> world" where
  "call_UpdateBuild e b w =
     (let (d, result) = UpdateBuild e b (now w)
      in (result, \<lparr>now = now w + int d, trace = trace w @ [EvUpdateBuild (now w) b result]\<rparr>))"

definition call_GetBuild :: "env \<Rightarrow> string \<Rightarrow> world \<Rightarrow> (error + build) \<times> world" where
  "call_GetBuild e name w =
     (let (d, result) = GetBuild e name (now w)
      in (result, \<lparr>now = now w + int d, trace = trace w @ [EvGetBuild (now w) name result]\<rparr>))"

section \<open>The launch loop\<close>

definition Millisecond :: int where "Millisecond = 1000000"
definition Second :: int where "Second = 1000000000"

definition cancelPollInterval :: int where "cancelPollInterval = 500 * Millisecond"
definition cancelPollDuration :: int where "cancelPollDuration = 30 * Second"

text \<open>
  The test of lines 202 to 208 of \<^verbatim>\<open>handle\<close>: the error is a not-found error, it is an
  \<^verbatim>\<open>APIStatus\<close>, and the kind of its status is \<^verbatim>\<open>imagestreamtags\<close>.
\<close>

definition absorbed :: "error \<Rightarrow> bool" where
  "absorbed er =
     (IsNotFound er \<and>
      (case er of StatusError _ _ kind _ \<Rightarrow> kind = ''imagestreamtags'' | _ \<Rightarrow> False))"

text \<open>
  \<^verbatim>\<open>wait.Poll(time.Second, h.r.Timeout, func)\<close> with the function of lines 199 to 214 in
  place. \<^verbatim>\<open>wait.Poll\<close> is the API machinery's, taken by its documented contract: it waits
  the interval before each run of the condition, runs it at least once, stops with the
  condition's error, stops with no error when the condition holds, and gives
  \<^verbatim>\<open>ErrWaitTimeout\<close> once the timeout has passed. The deadline is the time of the call plus
  the timeout; the clock advances by the interval and by the time each call takes, so the
  loop ends. The first argument of the loop is the handler's environment, the third the
  deadline. Logging and the request context are not modelled.
\<close>

function launch_poll :: "env \<Rightarrow> BuildRequest \<Rightarrow> int \<Rightarrow> world \<Rightarrow> (error + build) \<times> world" where
  "launch_poll e request deadline w =
     (case call_InstantiateInternal e request (sleep Second w) of
        (Inl er, w2) \<Rightarrow>
          if absorbed er
          then (if deadline \<le> now w2 then (Inl ErrWaitTimeout, w2)
                else launch_poll e request deadline w2)
          else (Inl er, w2)
      | (Inr result, w2) \<Rightarrow> (Inr result, w2))"
  by pat_completeness auto
termination
  by (relation "measure (\<lambda>(e, request, deadline, w). nat (deadline - now w))")
     (auto simp: call_InstantiateInternal_def sleep_def Second_def split: prod.splits)

declare launch_poll.simps [simp del]

section \<open>The cancellation routine\<close>

text \<open>
  \<^verbatim>\<open>wait.Poll(cancelPollInterval, cancelPollDuration, func)\<close> with the function of lines 303
  to 313 of \<^verbatim>\<open>cancelBuild\<close> in place. The function sets the flag again, updates, and on a
  conflict fetches the build anew and returns its error with \<^verbatim>\<open>false\<close>: the poll goes on
  when the fetch gave no error, and stops with the error otherwise. In every other case
  the function returns \<^verbatim>\<open>true\<close> with the error of the update, which ends the poll.
\<close>

function cancel_poll :: "env \<Rightarrow> int \<Rightarrow> build \<Rightarrow> world \<Rightarrow> error option \<times> world" where
  "cancel_poll e deadline versionedBuild w =
     (case call_UpdateBuild e (versionedBuild\<lparr>Cancelled := True\<rparr>) (sleep cancelPollInterval w) of
        (Some er, w2) \<Rightarrow>
          if IsConflict er
          then (case call_GetBuild e (Name versionedBuild) w2 of
                  (Inl gerr, w3) \<Rightarrow> (Some gerr, w3)
                | (Inr fetched, w3) \<Rightarrow>
                    if deadline \<le> now w3 then (Some ErrWaitTimeout, w3)
                    else cancel_poll e deadline fetched w3)
          else (Some er, w2)
      | (None, w2) \<Rightarrow> (None, w2))"
  by pat_completeness auto
termination
  by (relation "measure (\<lambda>(e, deadline, versionedBuild, w). nat (deadline - now w))")
     (auto simp: call_UpdateBuild_def call_GetBuild_def sleep_def cancelPollInterval_def
        Millisecond_def split: prod.splits)

declare cancel_poll.simps [simp del]

text \<open>
  \<^verbatim>\<open>cancelBuild\<close>: convert, set the flag, update once with the result dropped, then poll
  with the result dropped. The routine returns nothing; only the world changes.
\<close>

definition cancelBuild :: "env \<Rightarrow> build \<Rightarrow> world \<Rightarrow> world" where
  "cancelBuild e b w =
     (case call_Convert e b w of
        (Inl cerr, w1) \<Rightarrow> w1
      | (Inr versionedBuild, w1) \<Rightarrow>
          (let vb = versionedBuild\<lparr>Cancelled := True\<rparr>;
               w2 = snd (call_UpdateBuild e vb w1)
           in snd (cancel_poll e (now w2 + cancelPollDuration) vb w2)))"

section \<open>The handler\<close>

text \<open>Lines 175 to 195: the request built from the options.\<close>

definition binary_request :: "BinaryBuildRequestOptions \<Rightarrow> string \<Rightarrow> BuildRequest" where
  "binary_request options name =
     \<lparr>RequestName = name,
      Revision =
        (if length (Commit options) > 0
         then Some \<lparr>Git = Some
                \<lparr>Committer = \<lparr>UserName = CommitterName options, UserEmail = CommitterEmail options\<rparr>,
                 Author = \<lparr>UserName = AuthorName options, UserEmail = AuthorEmail options\<rparr>,
                 GitMessage = Message options,
                 GitCommit = Commit options\<rparr>\<rparr>
         else None),
      Binary = Some \<lparr>BinaryAsFile = AsFile options\<rparr>,
      TriggeredBy = None\<rparr>"

text \<open>
  Lines 255 to 290: the upload. The second component of the result is the value of the
  variable \<^verbatim>\<open>cancel\<close> when the function returns.
\<close>

definition upload :: "env \<Rightarrow> build \<Rightarrow> build \<Rightarrow> payload \<Rightarrow> world \<Rightarrow> (error + build) \<times> bool \<times> world" where
  "upload e b latest r w =
     (let buildPodName = GetBuildPodName e b;
          c = (if CustomStrategy b then CustomBuild else GitCloneContainer)
      in case call_RESTClientFor e w of
           (Some er, w1) \<Rightarrow> (Inl er, True, w1)
         | (None, w1) \<Rightarrow>
             (case call_NewSPDYExecutor e buildPodName (Namespace b) c w1 of
                (Some er, w2) \<Rightarrow> (Inl er, True, w2)
              | (None, w2) \<Rightarrow>
                  (case call_Stream e buildPodName (Namespace b) c r w2 of
                     (Some er, w3) \<Rightarrow> (Inl (NewInternalError er), True, w3)
                   | (None, w3) \<Rightarrow> (Inr latest, False, w3))))"

text \<open>
  Lines 229 to 253: the wait and the switch on its result, then the upload. The wait
  returns a snapshot, \<^verbatim>\<open>ok\<close> and an error; the cases are tried in the order of the source,
  the error first, then \<^verbatim>\<open>ok\<close>, and the snapshot is read only when there is no error and
  \<^verbatim>\<open>ok\<close> holds (where the source may hold a nil snapshot it does not read it). The
  rejection of a failed build reads \<^verbatim>\<open>build.Status\<close>, the status of the build the launch
  returned, as line 246 does.
\<close>

definition wait_and_upload ::
  "env \<Rightarrow> build \<Rightarrow> int \<Rightarrow> payload \<Rightarrow> world \<Rightarrow> (error + build) \<times> bool \<times> world" where
  "wait_and_upload e b remaining r w =
     (case call_WaitForRunningBuild e (Namespace b) (Name b) remaining w of
        ((latest, ok, Some er), w1) \<Rightarrow>
          if er = ErrBuildDeleted then
            (Inl (NewBadRequest (Sprintf ''build %s was deleted before it started: %s''
                    [ArgString (Name b), ArgString NoBuildLogsMessage])), True, w1)
          else
            (Inl (NewBadRequest (Sprintf ''unable to wait for build %s to run: %v''
                    [ArgString (Name b), ArgError er])), True, w1)
      | ((latest, ok, None), w1) \<Rightarrow>
          if \<not> ok then
            (Inl (NewTimeoutError (Sprintf ''timed out waiting for build %s to start after %s''
                    [ArgString (Name b), ArgDuration (Timeout e)]) 0), True, w1)
          else if Phase latest = BuildPhaseError then
            (Inl (NewBadRequest (Sprintf ''build %s encountered an error: %s''
                    [ArgString (Name b), ArgString NoBuildLogsMessage])), False, w1)
          else if Phase latest = BuildPhaseFailed then
            (Inl (NewBadRequest (Sprintf ''build %s failed: %s: %s''
                    [ArgString (Name b), ArgString (StatusReason b), ArgString (StatusMsg b)])),
             False, w1)
          else if Phase latest = BuildPhaseCancelled then
            (Inl (NewBadRequest (Sprintf ''build %s was cancelled: %s''
                    [ArgString (Name b), ArgString NoBuildLogsMessage])), False, w1)
          else if Phase latest \<noteq> BuildPhaseRunning then
            (Inl (NewBadRequest (Sprintf ''cannot upload file to build %s with status %s''
                    [ArgString (Name b), ArgString (Phase latest)])), True, w1)
          else upload e b latest r w1)"

text \<open>
  \<^verbatim>\<open>handle\<close>. The deferred function is registered at line 222, after the launch has given a
  build: the two returns above it (lines 172 and 215) leave without it, every return below
  it runs \<^verbatim>\<open>cancelBuild\<close> when \<^verbatim>\<open>cancel\<close> is still true. The function has unnamed
  results, so the deferred function cannot change what is returned.
\<close>

definition handle :: "env \<Rightarrow> BinaryBuildRequestOptions \<Rightarrow> string \<Rightarrow> payload \<Rightarrow> world \<Rightarrow> (error + build) \<times> world" where
  "handle e options name r w =
     (case BeforeCreateBinary e (options\<lparr>OptionsName := name\<rparr>) of
        Inl er \<Rightarrow> (Inl er, w)
      | Inr opts \<Rightarrow>
          (let request = binary_request opts name;
               start = now w
           in case launch_poll e request (start + Timeout e) w of
                (Inl er, w1) \<Rightarrow> (Inl er, w1)
              | (Inr b, w1) \<Rightarrow>
                  (let remaining = Timeout e - (now w1 - start)
                   in case wait_and_upload e b remaining r w1 of
                        (result, cancel, w2) \<Rightarrow>
                          (result, if cancel then cancelBuild e b w2 else w2))))"

text \<open>
  \<^verbatim>\<open>ServeHTTP\<close>: the responder is given the error, or the status 201 and the build. The
  closing of the request body is not modelled.
\<close>

datatype response = ResponderError error | ResponderObject nat build

definition StatusCreated :: nat where "StatusCreated = 201"

definition ServeHTTP :: "env \<Rightarrow> BinaryBuildRequestOptions \<Rightarrow> string \<Rightarrow> payload \<Rightarrow> world \<Rightarrow> response \<times> world" where
  "ServeHTTP e options name body w =
     (case handle e options name body w of
        (Inl er, w1) \<Rightarrow> (ResponderError er, w1)
      | (Inr b, w1) \<Rightarrow> (ResponderObject StatusCreated b, w1))"

section \<open>The plain instantiate path\<close>

text \<open>
  \<^verbatim>\<open>InstantiateREST.Create\<close>: \<open>beforeCreate\<close> is \<^verbatim>\<open>rest.BeforeCreate(Strategy, ctx, obj)\<close>,
  \<open>createValidation\<close> the validation passed in, \<open>instantiate\<close> the generator's
  \<^verbatim>\<open>InstantiateInternal\<close>, whose result is returned as it is.
\<close>

definition Create ::
  "(BuildRequest \<Rightarrow> error + BuildRequest) \<Rightarrow> (BuildRequest \<Rightarrow> error option) \<Rightarrow>
   (BuildRequest \<Rightarrow> error + 'b) \<Rightarrow> BuildRequest \<Rightarrow> error + 'b" where
  "Create beforeCreate createValidation instantiate obj =
     (case beforeCreate obj of
        Inl er \<Rightarrow> Inl er
      | Inr request \<Rightarrow>
          (case createValidation request of
             Some er \<Rightarrow> Inl er
           | None \<Rightarrow>
               instantiate
                 (if TriggeredBy request = None
                  then request\<lparr>TriggeredBy := Some ([] @ [\<lparr>CauseMessage = BuildTriggerCauseManualMsg\<rparr>])\<rparr>
                  else request)))"

section \<open>Reading a trace\<close>

text \<open>
  The upload is attempted when the handler goes past the switch on the wait's result,
  into lines 255 to 290: its first call there is \<^verbatim>\<open>RESTClientFor\<close>. The cancellation is
  attempted when \<^verbatim>\<open>cancelBuild\<close> runs: its first call is the conversion.
\<close>

fun is_upload_event :: "event \<Rightarrow> bool" where
  "is_upload_event (EvRESTClientFor _) = True"
| "is_upload_event (EvNewSPDYExecutor _ _ _ _) = True"
| "is_upload_event (EvStream _ _ _ _ _ _) = True"
| "is_upload_event _ = False"

fun is_cancel_event :: "event \<Rightarrow> bool" where
  "is_cancel_event (EvConvert _ _) = True"
| "is_cancel_event (EvUpdateBuild _ _ _) = True"
| "is_cancel_event (EvGetBuild _ _ _) = True"
| "is_cancel_event _ = False"

fun is_update_event :: "event \<Rightarrow> bool" where
  "is_update_event (EvUpdateBuild _ _ _) = True"
| "is_update_event _ = False"

fun is_stream_success :: "event \<Rightarrow> bool" where
  "is_stream_success (EvStream _ _ _ _ _ None) = True"
| "is_stream_success _ = False"

fun is_wait_event :: "event \<Rightarrow> bool" where
  "is_wait_event (EvWaitForRunning _ _ _ _ _) = True"
| "is_wait_event _ = False"

definition upload_attempted :: "event list \<Rightarrow> bool" where
  "upload_attempted tr = list_ex is_upload_event tr"

definition cancel_attempted :: "event list \<Rightarrow> bool" where
  "cancel_attempted tr = list_ex is_cancel_event tr"

definition stream_succeeded :: "event list \<Rightarrow> bool" where
  "stream_succeeded tr = list_ex is_stream_success tr"

text \<open>
  The phase the wait observed: the switch of \<^verbatim>\<open>handle\<close> tests the error and then
  \<^verbatim>\<open>ok\<close> before it reads the snapshot, so a phase is observed only when the wait
  returned no error and \<^verbatim>\<open>ok\<close>. A deleted build, an observation error and a timeout
  observe no phase.
\<close>

definition observed_phase :: "build \<times> bool \<times> error option \<Rightarrow> string option" where
  "observed_phase outcome =
     (case outcome of (latest, ok, err) \<Rightarrow> if err = None \<and> ok then Some (Phase latest) else None)"

text \<open>
  What the specification says of the poll inside \<^verbatim>\<open>cancelBuild\<close>, as a test on the calls
  it makes, to be compared with \<open>cancel_poll\<close>: every round waits the poll interval and
  submits the build it holds with the flag set; the rounds end with an update that
  succeeded or failed otherwise than by a conflict; a conflict is followed by a fetch of
  the build of that name; a failed fetch ends the rounds, and after a fetch that gave a
  build the rounds either end (the time was up) or go on with the fetched build.
\<close>

fun poll_protocol :: "int \<Rightarrow> build \<Rightarrow> event list \<Rightarrow> bool" where
  "poll_protocol t0 vb (EvUpdateBuild t b res # rest) =
     (t0 + cancelPollInterval \<le> t \<and> b = vb\<lparr>Cancelled := True\<rparr> \<and>
      (case res of
         None \<Rightarrow> rest = []
       | Some er \<Rightarrow>
           if IsConflict er
           then (case rest of
                   EvGetBuild t' n (Inl gerr) # rest' \<Rightarrow> t \<le> t' \<and> n = Name vb \<and> rest' = []
                 | EvGetBuild t' n (Inr fetched) # rest' \<Rightarrow>
                     t \<le> t' \<and> n = Name vb \<and> (rest' = [] \<or> poll_protocol t' fetched rest')
                 | _ \<Rightarrow> False)
           else rest = []))"
| "poll_protocol t0 vb _ = False"

text \<open>
  A result names a duration when it is an error whose message was formatted with that
  duration among its arguments.
\<close>

definition names_duration :: "error + build \<Rightarrow> int \<Rightarrow> bool" where
  "names_duration res d = (case res of Inl er \<Rightarrow> ArgDuration d \<in> set (error_args er) | Inr b \<Rightarrow> False)"

section \<open>Example runs\<close>

definition example_build :: build where
  "example_build =
     \<lparr>Name = ''app-1'', Namespace = ''dev'', Phase = ''New'', StatusReason = [], StatusMsg = [],
      Cancelled = False, CustomStrategy = False\<rparr>"

definition example_options :: BinaryBuildRequestOptions where
  "example_options =
     \<lparr>OptionsName = [], AsFile = [], Commit = [], Message = ''wip'', AuthorName = ''ann'',
      AuthorEmail = [], CommitterName = [], CommitterEmail = []\<rparr>"

text \<open>
  Scenario A of the specification: the launch succeeds at once, the build is running after
  two seconds, every later call succeeds.
\<close>

definition scenario_A :: env where
  "scenario_A =
     \<lparr>Timeout = 300 * Second,
      BeforeCreateBinary = Inr,
      InstantiateInternal = (\<lambda>request t. (0, Inr example_build)),
      WaitForRunningBuild =
        (\<lambda>namespace name timeout t. (2000000000, (example_build\<lparr>Phase := ''Running''\<rparr>, True, None))),
      GetBuildPodName = (\<lambda>b. Name b @ ''-build''),
      RESTClientFor = None,
      NewSPDYExecutor = (\<lambda>pod namespace c. None),
      Stream = (\<lambda>pod namespace c r t. (0, None)),
      Convert = Inr,
      UpdateBuild = (\<lambda>b t. (0, None)),
      GetBuild = (\<lambda>name t. (0, Inr example_build))\<rparr>"

definition not_found :: "string \<Rightarrow> error" where
  "not_found kind = StatusError ''NotFound'' 404 kind (Sprintf ''not found'' [])"

definition conflict :: error where
  "conflict = StatusError ''Conflict'' 409 [] (Sprintf ''the object has been modified'' [])"


text \<open>The launch fails with an error that is not absorbed.\<close>

definition scenario_launch_fails :: env where
  "scenario_launch_fails =
     scenario_A\<lparr>InstantiateInternal := (\<lambda>request t. (0, Inl (not_found ''buildconfigs'')))\<rparr>"

text \<open>Scenario C: the build fails, with a reason and a message on the failed build.\<close>

definition scenario_C :: env where
  "scenario_C =
     scenario_A\<lparr>WaitForRunningBuild :=
       (\<lambda>namespace name timeout t.
          (2000000000,
           (example_build\<lparr>Phase := ''Failed'', StatusReason := ''BuildError'',
                          StatusMsg := ''exit status 1''\<rparr>, True, None)))\<rparr>"

text \<open>
  Scenario D: the generator answers after two seconds, and the build never runs: the wait
  reports a timeout a quarter of a second after the time it was given has passed.
\<close>

definition scenario_D :: env where
  "scenario_D =
     scenario_A\<lparr>InstantiateInternal := (\<lambda>request t. (2000000000, Inr example_build)),
                WaitForRunningBuild :=
                  (\<lambda>namespace name timeout t.
                     (nat (timeout + 250 * Millisecond), (example_build, False, None)))\<rparr>"

text \<open>
  Scenario E: the stream breaks; the updates of the cancellation conflict until the build
  has been fetched anew.
\<close>

definition scenario_E :: env where
  "scenario_E =
     scenario_A\<lparr>Stream := (\<lambda>pod namespace c r t. (0, Some (PlainError ''connection reset''))),
                UpdateBuild := (\<lambda>b t. (0, if Phase b = ''Running'' then None else Some conflict)),
                GetBuild := (\<lambda>name t. (0, Inr (example_build\<lparr>Phase := ''Running''\<rparr>)))\<rparr>"

text \<open>The runs of the handler in these scenarios, on a payload of three bytes.\<close>

definition run_A :: "(error + build) \<times> world" where
  "run_A = handle scenario_A example_options ''app'' [1, 2, 3] (start_world 0)"

definition run_launch_fails :: "(error + build) \<times> world" where
  "run_launch_fails = handle scenario_launch_fails example_options ''app'' [1, 2, 3] (start_world 0)"

definition run_C :: "(error + build) \<times> world" where
  "run_C = handle scenario_C example_options ''app'' [1, 2, 3] (start_world 0)"

definition run_D :: "(error + build) \<times> world" where
  "run_D = handle scenario_D example_options ''app'' [1, 2, 3] (start_world 0)"

definition run_E :: "(error + build) \<times> world" where
  "run_E = handle scenario_E example_options ''app'' [1, 2, 3] (start_world 0)"



text \<open>A request to the plain instantiate path that carries no trigger cause.\<close>

definition example_request :: BuildRequest where
  "example_request = \<lparr>RequestName = ''app'', Revision = None, Binary = None, TriggeredBy = None\<rparr>"

section \<open>Traces of the parts\<close>

subsection \<open>The launch\<close>


lemmas call_defs = call_InstantiateInternal_def call_WaitForRunningBuild_def call_RESTClientFor_def
  call_NewSPDYExecutor_def call_Stream_def call_Convert_def call_UpdateBuild_def call_GetBuild_def




lemma call_InstantiateInternal_eq:
  "InstantiateInternal e request (now w) = (d, result) \<Longrightarrow>
   call_InstantiateInternal e request w =
     (result, \<lparr>now = now w + int d, trace = trace w @ [EvInstantiate (now w) request result]\<rparr>)"
  by (simp add: call_InstantiateInternal_def)

lemma launch_poll_events:
  "launch_poll e request deadline w = (res, w') \<Longrightarrow>
   \<exists>evs t result. trace w' = trace w @ evs @ [EvInstantiate t request result] \<and>
      (\<forall>ev\<in>set evs. \<exists>t' er. ev = EvInstantiate t' request (Inl er) \<and> absorbed er \<and> t' < deadline) \<and>
      now w + Second \<le> t \<and> t \<le> max (now w) deadline + Second \<and>
      (case result of
         Inr b \<Rightarrow> res = Inr b
       | Inl er \<Rightarrow> if absorbed er then res = Inl ErrWaitTimeout \<and> deadline \<le> now w' else res = Inl er)"
proof (induction e request deadline w arbitrary: res w' rule: launch_poll.induct)
  case (1 e request deadline w)
  obtain d result where answer: "InstantiateInternal e request (now (sleep Second w)) = (d, result)"
    by (cases "InstantiateInternal e request (now (sleep Second w))") auto
  define w2 where "w2 = \<lparr>now = now (sleep Second w) + int d,
                          trace = trace (sleep Second w) @ [EvInstantiate (now (sleep Second w)) request result]\<rparr>"
  have call: "call_InstantiateInternal e request (sleep Second w) = (result, w2)"
    unfolding w2_def by (rule call_InstantiateInternal_eq [OF answer])
  have tr2: "trace w2 = trace w @ [EvInstantiate (now (sleep Second w)) request result]"
    by (simp add: w2_def sleep_def)
  have t1: "now (sleep Second w) = now w + Second" "now w + Second \<le> now w2"
    by (simp_all add: w2_def sleep_def)
  show ?case
  proof (cases result)
    case (Inr b)
    with call "1.prems" have "res = Inr b" "w' = w2"
      by (simp_all add: launch_poll.simps [of e request deadline w])
    with tr2 Inr t1 show ?thesis by auto
  next
    case (Inl er)
    show ?thesis
    proof (cases "absorbed er")
      case False
      with call Inl "1.prems" have "res = Inl er" "w' = w2"
        by (simp_all add: launch_poll.simps [of e request deadline w])
      with tr2 Inl False t1 show ?thesis by auto
    next
      case True
      show ?thesis
      proof (cases "deadline \<le> now w2")
        case expired: True
        with call Inl True "1.prems" have "res = Inl ErrWaitTimeout" "w' = w2"
          by (simp_all add: launch_poll.simps [of e request deadline w])
        with tr2 Inl True expired t1 show ?thesis by auto
      next
        case False
        with call Inl True "1.prems" have again: "launch_poll e request deadline w2 = (res, w')"
          by (simp add: launch_poll.simps [of e request deadline w])
        from "1.IH" [OF call [symmetric] Inl True False again]
        obtain evs t result' where
          tr: "trace w' = trace w2 @ evs @ [EvInstantiate t request result']" and
          all: "\<forall>ev\<in>set evs. \<exists>t' er. ev = EvInstantiate t' request (Inl er) \<and> absorbed er \<and> t' < deadline" and
          time: "now w2 + Second \<le> t" "t \<le> max (now w2) deadline + Second" and
          fin: "(case result' of
                   Inr b \<Rightarrow> res = Inr b
                 | Inl er \<Rightarrow> if absorbed er then res = Inl ErrWaitTimeout \<and> deadline \<le> now w' else res = Inl er)"
          by blast
        let ?evs = "EvInstantiate (now (sleep Second w)) request result # evs"
        have "trace w' = trace w @ ?evs @ [EvInstantiate t request result']"
          using tr tr2 by simp
        moreover have "\<forall>ev\<in>set ?evs. \<exists>t' er. ev = EvInstantiate t' request (Inl er) \<and> absorbed er \<and> t' < deadline"
          using all Inl True False t1 by auto
        moreover have "now w + Second \<le> t" "t \<le> max (now w) deadline + Second"
          using time False t1 Second_def by auto
        ultimately show ?thesis using fin by blast
      qed
    qed
  qed
qed


subsection \<open>The upload and the switch\<close>

lemma upload_events:
  assumes "upload e b latest r w = (res, cancel, w2)"
  shows "\<exists>ups. trace w2 = trace w @ EvRESTClientFor (RESTClientFor e) # ups \<and>
           (\<forall>ev\<in>set ups. is_upload_event ev) \<and>
           (cancel \<longleftrightarrow> \<not> list_ex is_stream_success ups) \<and>
           (list_ex is_stream_success ups \<longrightarrow> res = Inr latest) \<and>
           (\<not> list_ex is_stream_success ups \<longrightarrow> isl res) \<and>
           (\<forall>t pod ns c r' er. EvStream t pod ns c r' (Some er) \<in> set ups \<longrightarrow> res = Inl (NewInternalError er))"
  using assms
  by (auto simp: upload_def call_defs Let_def split: option.splits prod.splits)

lemma wait_and_upload_events:
  assumes "wait_and_upload e b rem r w = (res, cancel, w2)"
      and "WaitForRunningBuild e (Namespace b) (Name b) rem (now w) = (d, out)"
  shows "\<exists>ups. trace w2 = trace w @ EvWaitForRunning (now w) (Namespace b) (Name b) rem out # ups \<and>
           (\<forall>ev\<in>set ups. is_upload_event ev) \<and>
           (ups \<noteq> [] \<longleftrightarrow> observed_phase out = Some BuildPhaseRunning) \<and>
           (cancel \<longleftrightarrow> observed_phase out \<notin> {Some BuildPhaseError, Some BuildPhaseFailed, Some BuildPhaseCancelled}
                         \<and> \<not> list_ex is_stream_success ups) \<and>
           (list_ex is_stream_success ups \<longrightarrow> res = Inr (fst out)) \<and>
           (\<not> list_ex is_stream_success ups \<longrightarrow> isl res) \<and>
           (\<forall>t pod ns c r' er. EvStream t pod ns c r' (Some er) \<in> set ups \<longrightarrow> res = Inl (NewInternalError er))"
proof (cases "observed_phase out = Some BuildPhaseRunning")
  case True
  then obtain latest where out: "out = (latest, True, None)" and ph: "Phase latest = BuildPhaseRunning"
    by (auto simp: observed_phase_def split: prod.splits if_splits)
  define w1 where "w1 = \<lparr>now = now w + int d,
      trace = trace w @ [EvWaitForRunning (now w) (Namespace b) (Name b) rem out]\<rparr>"
  have "wait_and_upload e b rem r w = upload e b latest r w1"
    using assms(2) out ph
    by (simp add: wait_and_upload_def call_defs w1_def BuildPhaseRunning_def BuildPhaseError_def
        BuildPhaseFailed_def BuildPhaseCancelled_def)
  with assms(1) have "upload e b latest r w1 = (res, cancel, w2)" by simp
  from upload_events [OF this] obtain ups where
    "trace w2 = trace w1 @ EvRESTClientFor (RESTClientFor e) # ups"
    "\<forall>ev\<in>set ups. is_upload_event ev"
    "cancel \<longleftrightarrow> \<not> list_ex is_stream_success ups"
    "list_ex is_stream_success ups \<longrightarrow> res = Inr latest"
    "\<not> list_ex is_stream_success ups \<longrightarrow> isl res"
    "\<forall>t pod ns c r' er. EvStream t pod ns c r' (Some er) \<in> set ups \<longrightarrow> res = Inl (NewInternalError er)"
    by blast
  then show ?thesis
    using True out
    by (intro exI [of _ "EvRESTClientFor (RESTClientFor e) # ups"])
       (auto simp: w1_def BuildPhaseRunning_def BuildPhaseError_def
        BuildPhaseFailed_def BuildPhaseCancelled_def)
next
  case False
  obtain latest ok err where out: "out = (latest, ok, err)" by (cases out) auto
  from False out assms show ?thesis
    by (intro exI [of _ "[]"])
       (auto simp: wait_and_upload_def call_defs observed_phase_def split: option.splits if_splits)
qed

subsection \<open>The cancellation\<close>

lemma poll_protocol_earlier:
  "poll_protocol t0 vb evs \<Longrightarrow> t1 \<le> t0 \<Longrightarrow> poll_protocol t1 vb evs"
  by (cases "(t0, vb, evs)" rule: poll_protocol.cases) auto

lemma cancel_poll_events:
  "cancel_poll e deadline vb w = (res, w') \<Longrightarrow>
   \<exists>evs. trace w' = trace w @ evs \<and> poll_protocol (now w) vb evs \<and>
     (\<forall>ev\<in>set evs. is_cancel_event ev) \<and>
     (\<forall>t b ures. EvUpdateBuild t b ures \<in> set evs \<longrightarrow>
           t \<le> max (now w) deadline + cancelPollInterval) \<and>
     (\<forall>n. deadline - now w \<le> int n * cancelPollInterval \<longrightarrow>
           length (filter is_update_event evs) \<le> max 1 n)"
proof (induction e deadline vb w arbitrary: res w' rule: cancel_poll.induct)
  case (1 e deadline vb w)
  let ?goal = ?case
  define t where "t = now w + cancelPollInterval"
  obtain d ures where upd: "UpdateBuild e (vb\<lparr>Cancelled := True\<rparr>) t = (d, ures)"
    by (cases "UpdateBuild e (vb\<lparr>Cancelled := True\<rparr>) t") auto
  define u where "u = EvUpdateBuild t (vb\<lparr>Cancelled := True\<rparr>) ures"
  define w2 where "w2 = \<lparr>now = t + int d, trace = trace w @ [u]\<rparr>"
  have call: "call_UpdateBuild e (vb\<lparr>Cancelled := True\<rparr>) (sleep cancelPollInterval w) = (ures, w2)"
    using upd by (simp add: call_UpdateBuild_def sleep_def t_def w2_def u_def)
  have one: "poll_protocol (now w) vb [u]" if "ures = None \<or> (\<exists>er. ures = Some er \<and> \<not> IsConflict er)"
    using that by (auto simp: u_def t_def)
  have single: ?goal if "res = ures" "w' = w2" "ures = None \<or> (\<exists>er. ures = Some er \<and> \<not> IsConflict er)"
    using that one by (intro exI [of _ "[u]"]) (auto simp: w2_def u_def t_def)
  show ?case
  proof (cases ures)
    case None
    with call "1.prems" have "res = ures" "w' = w2"
      by (simp_all add: cancel_poll.simps [of e deadline vb w])
    with None single show ?thesis by blast
  next
    case (Some er)
    show ?thesis
    proof (cases "IsConflict er")
      case False
      with call Some "1.prems" have "res = ures" "w' = w2"
        by (simp_all add: cancel_poll.simps [of e deadline vb w])
      with Some False single show ?thesis by blast
    next
      case True
      obtain d' got where get: "GetBuild e (Name vb) (now w2) = (d', got)"
        by (cases "GetBuild e (Name vb) (now w2)") auto
      define g where "g = EvGetBuild (now w2) (Name vb) got"
      define w3 where "w3 = \<lparr>now = now w2 + int d', trace = trace w2 @ [g]\<rparr>"
      have call2: "call_GetBuild e (Name vb) w2 = (got, w3)"
        using get by (simp add: call_GetBuild_def w3_def g_def)
      have two: "poll_protocol (now w) vb [u, g]"
        using Some True by (cases got) (auto simp: u_def g_def t_def w2_def)
      have pair: ?goal if "w' = w3"
        using that two by (intro exI [of _ "[u, g]"]) (auto simp: w3_def w2_def u_def g_def t_def)
      show ?thesis
      proof (cases got)
        case (Inl gerr)
        with call call2 Some True "1.prems" have "w' = w3"
          by (simp add: cancel_poll.simps [of e deadline vb w])
        then show ?thesis by (rule pair)
      next
        case (Inr fetched)
        show ?thesis
        proof (cases "deadline \<le> now w3")
          case expired: True
          with call call2 Some True Inr "1.prems" have "w' = w3"
            by (simp add: cancel_poll.simps [of e deadline vb w])
          then show ?thesis by (rule pair)
        next
          case False
          with call call2 Some True Inr "1.prems"
          have again: "cancel_poll e deadline fetched w3 = (res, w')"
            by (simp add: cancel_poll.simps [of e deadline vb w])
          from "1.IH" [OF call [symmetric] Some True call2 [symmetric] Inr False again]
          obtain evs where
            tr: "trace w' = trace w3 @ evs" and
            proto: "poll_protocol (now w3) fetched evs" and
            all: "\<forall>ev\<in>set evs. is_cancel_event ev" and
            times: "\<forall>t b ures. EvUpdateBuild t b ures \<in> set evs \<longrightarrow>
                      t \<le> max (now w3) deadline + cancelPollInterval" and
            bound: "\<forall>n. deadline - now w3 \<le> int n * cancelPollInterval \<longrightarrow>
                      length (filter is_update_event evs) \<le> max 1 n"
            by blast
          have later: "now w2 \<le> now w3" "now w + cancelPollInterval \<le> now w2"
            by (simp_all add: w3_def w2_def t_def)
          from proto have ne: "evs \<noteq> []" by (cases evs) auto
          have proto': "poll_protocol (now w2) fetched evs"
            using proto later by (auto intro: poll_protocol_earlier)
          have p: "poll_protocol (now w) vb (u # g # evs)"
            using Some True Inr proto' by (simp add: u_def g_def t_def w2_def)
          have count: "length (filter is_update_event (u # g # evs)) \<le> max 1 n"
            if n: "deadline - now w \<le> int n * cancelPollInterval" for n
          proof -
            have pos: "0 < cancelPollInterval" by (simp add: cancelPollInterval_def Millisecond_def)
            from False later n have "cancelPollInterval < int n * cancelPollInterval" by linarith
            with pos have "1 < n" by (cases n) auto
            then obtain m where m: "n = Suc m" "1 \<le> m" by (cases n) auto
            have "deadline - now w3 \<le> int m * cancelPollInterval"
              using n later m by (simp add: algebra_simps)
            with bound have "length (filter is_update_event evs) \<le> max 1 m" by blast
            with m show ?thesis by (simp add: u_def g_def)
          qed
          have times': "t' \<le> max (now w) deadline + cancelPollInterval"
            if "EvUpdateBuild t' b' ures' \<in> set (u # g # evs)" for t' b' ures'
          proof (cases "EvUpdateBuild t' b' ures' \<in> set evs")
            case True
            with times have "t' \<le> max (now w3) deadline + cancelPollInterval" by blast
            with False show ?thesis by simp
          next
            case False
            with that have "t' = t" by (auto simp: u_def g_def)
            then show ?thesis by (simp add: t_def)
          qed
          show ?thesis
            using tr p all count times'
            by (intro exI [of _ "u # g # evs"]) (auto simp: w3_def w2_def u_def g_def)
        qed
      qed
    qed
  qed
qed

lemma cancelBuild_events:
  "\<exists>evs. trace (cancelBuild e b w) = trace w @ EvConvert b (Convert e b) # evs \<and>
     (\<forall>ev\<in>set evs. is_cancel_event ev) \<and>
     (case Convert e b of
        Inl cerr \<Rightarrow> evs = []
      | Inr vb \<Rightarrow>
          \<exists>d ures pevs.
            UpdateBuild e (vb\<lparr>Cancelled := True\<rparr>) (now w) = (d, ures) \<and>
            evs = EvUpdateBuild (now w) (vb\<lparr>Cancelled := True\<rparr>) ures # pevs \<and>
            poll_protocol (now w + int d) (vb\<lparr>Cancelled := True\<rparr>) pevs \<and>
            length (filter is_update_event pevs) \<le> 60 \<and>
            (\<forall>t b' res. EvUpdateBuild t b' res \<in> set pevs \<longrightarrow>
               t \<le> now w + int d + cancelPollDuration + cancelPollInterval))"
proof (cases "Convert e b")
  case (Inl cerr)
  then show ?thesis by (simp add: cancelBuild_def call_Convert_def)
next
  case (Inr vb)
  define vb' where "vb' = vb\<lparr>Cancelled := True\<rparr>"
  obtain d ures where upd: "UpdateBuild e vb' (now w) = (d, ures)"
    by (cases "UpdateBuild e vb' (now w)") auto
  define w2 where "w2 = \<lparr>now = now w + int d,
     trace = trace w @ [EvConvert b (Convert e b), EvUpdateBuild (now w) vb' ures]\<rparr>"
  obtain pres w3 where poll: "cancel_poll e (now w2 + cancelPollDuration) vb' w2 = (pres, w3)"
    by (cases "cancel_poll e (now w2 + cancelPollDuration) vb' w2") auto
  have run: "cancelBuild e b w = w3"
    using Inr upd poll
    by (simp add: cancelBuild_def call_Convert_def call_UpdateBuild_def Let_def vb'_def w2_def)
  from cancel_poll_events [OF poll] obtain pevs where
    tr: "trace w3 = trace w2 @ pevs" and
    proto: "poll_protocol (now w2) vb' pevs" and
    all: "\<forall>ev\<in>set pevs. is_cancel_event ev" and
    times: "\<forall>t b' res. EvUpdateBuild t b' res \<in> set pevs \<longrightarrow>
              t \<le> max (now w2) (now w2 + cancelPollDuration) + cancelPollInterval" and
    bound: "\<forall>n. now w2 + cancelPollDuration - now w2 \<le> int n * cancelPollInterval \<longrightarrow>
              length (filter is_update_event pevs) \<le> max 1 n"
    by blast
  have "now w2 + cancelPollDuration - now w2 \<le> int 60 * cancelPollInterval"
    by (simp add: cancelPollDuration_def cancelPollInterval_def Second_def Millisecond_def)
  with bound have "length (filter is_update_event pevs) \<le> max 1 60" by blast
  then have count: "length (filter is_update_event pevs) \<le> 60" by simp
  have vb'': "vb'\<lparr>Cancelled := True\<rparr> = vb'" by (simp add: vb'_def)
  have "max (now w2) (now w2 + cancelPollDuration) = now w + int d + cancelPollDuration"
    by (simp add: w2_def cancelPollDuration_def Second_def)
  with times have times': "\<forall>t b' res. EvUpdateBuild t b' res \<in> set pevs \<longrightarrow>
              t \<le> now w + int d + cancelPollDuration + cancelPollInterval" by simp
  show ?thesis
    using Inr upd tr proto all count vb'' times'
    by (intro exI [of _ "EvUpdateBuild (now w) vb' ures # pevs"])
       (auto simp: run w2_def vb'_def)
qed

subsection \<open>What the result depends on\<close>

lemma launch_poll_same:
  "InstantiateInternal e' = InstantiateInternal e \<Longrightarrow>
   launch_poll e' request deadline w = launch_poll e request deadline w"
proof (induction e request deadline w rule: launch_poll.induct)
  case (1 e request deadline w)
  have call: "call_InstantiateInternal e' request = call_InstantiateInternal e request"
    using "1.prems" by (simp add: call_InstantiateInternal_def fun_eq_iff)
  show ?case
    using "1.IH" "1.prems"
    by (subst launch_poll.simps, subst (2) launch_poll.simps)
       (auto simp: call split: prod.splits sum.splits)
qed

lemma handle_result_without_cancel:
  "fst (handle (e\<lparr>Convert := cv, UpdateBuild := ub, GetBuild := gb\<rparr>) options name r w) =
   fst (handle e options name r w)"
proof -
  let ?e = "e\<lparr>Convert := cv, UpdateBuild := ub, GetBuild := gb\<rparr>"
  have l: "launch_poll ?e request deadline w0 = launch_poll e request deadline w0" for request deadline w0
    by (rule launch_poll_same) simp
  have up: "upload ?e b latest r w0 = upload e b latest r w0" for b latest w0
    by (auto simp: upload_def call_defs Let_def split: prod.splits option.splits)
  have u: "wait_and_upload ?e b rem r w0 = wait_and_upload e b rem r w0" for b rem w0
    by (auto simp: wait_and_upload_def call_WaitForRunningBuild_def up
        split: prod.splits option.splits)
  show ?thesis
    by (auto simp: handle_def l u Let_def split: sum.splits prod.splits)
qed

subsection \<open>The runs of the handler\<close>

lemma launch_only_instantiates:
  assumes "launch_poll e request deadline w = (res, w1)" and "ev \<in> set (trace w1)"
  shows "ev \<in> set (trace w) \<or> (\<exists>t result. ev = EvInstantiate t request result)"
  using launch_poll_events [OF assms(1)] assms(2) by fastforce

lemma handle_cases [consumes 1, case_names rejected launch_failed launched]:
  assumes run: "handle e options name r (start_world t0) = (res, w')"
  obtains
    (rejected) er where
      "BeforeCreateBinary e (options\<lparr>OptionsName := name\<rparr>) = Inl er"
      "res = Inl er" "trace w' = []"
  | (launch_failed) opts er where
      "BeforeCreateBinary e (options\<lparr>OptionsName := name\<rparr>) = Inr opts"
      "launch_poll e (binary_request opts name) (t0 + Timeout e) (start_world t0) = (Inl er, w')"
      "res = Inl er"
      "\<forall>ev\<in>set (trace w'). \<exists>t result. ev = EvInstantiate t (binary_request opts name) result"
  | (launched) opts b w1 d out ups cancel cevs where
      "BeforeCreateBinary e (options\<lparr>OptionsName := name\<rparr>) = Inr opts"
      "launch_poll e (binary_request opts name) (t0 + Timeout e) (start_world t0) = (Inr b, w1)"
      "\<forall>ev\<in>set (trace w1). \<exists>t result. ev = EvInstantiate t (binary_request opts name) result"
      "WaitForRunningBuild e (Namespace b) (Name b) (Timeout e - (now w1 - t0)) (now w1) = (d, out)"
      "trace w' = trace w1 @
         EvWaitForRunning (now w1) (Namespace b) (Name b) (Timeout e - (now w1 - t0)) out # ups @ cevs"
      "\<forall>ev\<in>set ups. is_upload_event ev"
      "ups \<noteq> [] \<longleftrightarrow> observed_phase out = Some BuildPhaseRunning"
      "cancel \<longleftrightarrow> observed_phase out \<notin> {Some BuildPhaseError, Some BuildPhaseFailed, Some BuildPhaseCancelled}
                   \<and> \<not> list_ex is_stream_success ups"
      "list_ex is_stream_success ups \<longrightarrow> res = Inr (fst out)"
      "\<not> list_ex is_stream_success ups \<longrightarrow> isl res"
      "\<forall>t pod ns c r' er. EvStream t pod ns c r' (Some er) \<in> set ups \<longrightarrow> res = Inl (NewInternalError er)"
      "\<forall>ev\<in>set cevs. is_cancel_event ev"
      "cevs \<noteq> [] \<longleftrightarrow> cancel"
      "fst (wait_and_upload e b (Timeout e - (now w1 - t0)) r w1) = res"
proof (cases "BeforeCreateBinary e (options\<lparr>OptionsName := name\<rparr>)")
  case (Inl er)
  with run have "res = Inl er" "trace w' = []"
    by (auto simp: handle_def start_world_def)
  with Inl show ?thesis by (rule rejected)
next
  case (Inr opts)
  let ?request = "binary_request opts name"
  obtain outcome w1 where launch:
    "launch_poll e ?request (t0 + Timeout e) (start_world t0) = (outcome, w1)"
    by (cases "launch_poll e ?request (t0 + Timeout e) (start_world t0)") auto
  have only: "\<forall>ev\<in>set (trace w1). \<exists>t result. ev = EvInstantiate t ?request result"
    using launch_only_instantiates [OF launch] by (auto simp: start_world_def)
  show ?thesis
  proof (cases outcome)
    case (Inl er)
    with run Inr launch have "res = Inl er" "w' = w1"
      by (auto simp: handle_def start_world_def Let_def)
    with Inr launch Inl only show ?thesis by (intro launch_failed [of opts er]) auto
  next
    case b: (Inr b)
    let ?rem = "Timeout e - (now w1 - t0)"
    obtain res' cancel w2 where wau: "wait_and_upload e b ?rem r w1 = (res', cancel, w2)"
      by (cases "wait_and_upload e b ?rem r w1") auto
    obtain d out where answer: "WaitForRunningBuild e (Namespace b) (Name b) ?rem (now w1) = (d, out)"
      by (cases "WaitForRunningBuild e (Namespace b) (Name b) ?rem (now w1)") auto
    from run Inr launch b wau have res: "res = res'"
      and w': "w' = (if cancel then cancelBuild e b w2 else w2)"
      by (auto simp: handle_def start_world_def Let_def)
    from wait_and_upload_events [OF wau answer] obtain ups where ups:
      "trace w2 = trace w1 @ EvWaitForRunning (now w1) (Namespace b) (Name b) ?rem out # ups"
      "\<forall>ev\<in>set ups. is_upload_event ev"
      "ups \<noteq> [] \<longleftrightarrow> observed_phase out = Some BuildPhaseRunning"
      "cancel \<longleftrightarrow> observed_phase out \<notin> {Some BuildPhaseError, Some BuildPhaseFailed, Some BuildPhaseCancelled}
                   \<and> \<not> list_ex is_stream_success ups"
      "list_ex is_stream_success ups \<longrightarrow> res' = Inr (fst out)"
      "\<not> list_ex is_stream_success ups \<longrightarrow> isl res'"
      "\<forall>t pod ns c r' er. EvStream t pod ns c r' (Some er) \<in> set ups \<longrightarrow> res' = Inl (NewInternalError er)"
      by blast
    obtain cevs where cevs: "trace w' = trace w2 @ cevs" "\<forall>ev\<in>set cevs. is_cancel_event ev"
      "cevs \<noteq> [] \<longleftrightarrow> cancel"
    proof (cases cancel)
      case True
      from cancelBuild_events [of e b w2] obtain evs where
        "trace (cancelBuild e b w2) = trace w2 @ EvConvert b (Convert e b) # evs"
        "\<forall>ev\<in>set evs. is_cancel_event ev" by blast
      with True w' show ?thesis by (intro that [of "EvConvert b (Convert e b) # evs"]) auto
    next
      case False
      with w' show ?thesis by (intro that [of "[]"]) auto
    qed
    have fwau: "fst (wait_and_upload e b ?rem r w1) = res"
      using wau res by simp
    have launch': "launch_poll e ?request (t0 + Timeout e) (start_world t0) = (Inr b, w1)"
      using launch b by simp
    have tr: "trace w' = trace w1 @
        EvWaitForRunning (now w1) (Namespace b) (Name b) ?rem out # ups @ cevs"
      using ups(1) cevs(1) by simp
    show ?thesis
      by (rule launched [OF Inr launch' only answer tr ups(2) ups(3) ups(4)
            ups(5) [folded res] ups(6) [folded res] ups(7) [folded res] cevs(2) cevs(3) fwau])
  qed
qed


lemmas phase_defs = BuildPhaseRunning_def BuildPhaseError_def BuildPhaseFailed_def BuildPhaseCancelled_def

lemma upload_not_cancel: "is_upload_event x \<Longrightarrow> \<not> is_cancel_event x"
  by (cases x) auto

lemma handle_waited [consumes 2, case_names waited]:
  assumes run: "handle e options name r (start_world t0) = (res, w')"
      and ev: "EvWaitForRunning t ns nm rem out \<in> set (trace w')"
  obtains opts b w1 d ups cancel cevs where
      "BeforeCreateBinary e (options\<lparr>OptionsName := name\<rparr>) = Inr opts"
      "launch_poll e (binary_request opts name) (t0 + Timeout e) (start_world t0) = (Inr b, w1)"
      "t = now w1" "ns = Namespace b" "nm = Name b" "rem = Timeout e - (now w1 - t0)"
      "WaitForRunningBuild e ns nm rem t = (d, out)"
      "\<forall>ev\<in>set (trace w1). \<exists>t result. ev = EvInstantiate t (binary_request opts name) result"
      "trace w' = trace w1 @ EvWaitForRunning t ns nm rem out # ups @ cevs"
      "\<forall>ev\<in>set ups. is_upload_event ev"
      "ups \<noteq> [] \<longleftrightarrow> observed_phase out = Some BuildPhaseRunning"
      "cancel \<longleftrightarrow> observed_phase out \<notin> {Some BuildPhaseError, Some BuildPhaseFailed, Some BuildPhaseCancelled}
                   \<and> \<not> list_ex is_stream_success ups"
      "list_ex is_stream_success ups \<longrightarrow> res = Inr (fst out)"
      "\<not> list_ex is_stream_success ups \<longrightarrow> isl res"
      "\<forall>ev\<in>set cevs. is_cancel_event ev"
      "cevs \<noteq> [] \<longleftrightarrow> cancel"
      "fst (wait_and_upload e b rem r w1) = res"
  using run
proof (cases rule: handle_cases)
  case (rejected er)
  with ev show ?thesis by simp
next
  case (launch_failed opts er)
  with ev show ?thesis by fastforce
next
  case (launched opts b w1 d out' ups cancel cevs)
  let ?rem = "Timeout e - (now w1 - t0)"
  from ev launched(5) have
    "EvWaitForRunning t ns nm rem out \<in> set (trace w1) \<or>
     EvWaitForRunning t ns nm rem out = EvWaitForRunning (now w1) (Namespace b) (Name b) ?rem out' \<or>
     EvWaitForRunning t ns nm rem out \<in> set ups \<or> EvWaitForRunning t ns nm rem out \<in> set cevs"
    by auto
  moreover have "EvWaitForRunning t ns nm rem out \<notin> set (trace w1)"
    using launched(3) by fastforce
  moreover have "EvWaitForRunning t ns nm rem out \<notin> set ups"
    using launched(6) by fastforce
  moreover have "EvWaitForRunning t ns nm rem out \<notin> set cevs"
    using launched(12) by fastforce
  ultimately have same: "t = now w1" "ns = Namespace b" "nm = Name b" "rem = ?rem" "out = out'"
    by auto
  show ?thesis
  proof (rule that)
  qed (use launched same in simp_all)
qed

lemma stream_success_is_upload: "is_stream_success x \<Longrightarrow> is_upload_event x"
  by (cases x rule: is_stream_success.cases) auto

lemma handle_attempts:
  assumes run: "handle e options name r (start_world t0) = (res, w')"
      and ev: "EvWaitForRunning t ns nm rem out \<in> set (trace w')"
  shows "(upload_attempted (trace w') \<longleftrightarrow> observed_phase out = Some BuildPhaseRunning) \<and>
         (cancel_attempted (trace w') \<longleftrightarrow>
            observed_phase out \<notin> {Some BuildPhaseError, Some BuildPhaseFailed, Some BuildPhaseCancelled} \<and>
            \<not> stream_succeeded (trace w')) \<and>
         (stream_succeeded (trace w') \<longrightarrow>
            res = Inr (fst out) \<and> observed_phase out = Some BuildPhaseRunning) \<and>
         (\<not> stream_succeeded (trace w') \<longrightarrow> isl res)"
  using run ev
proof (cases rule: handle_waited)
  case (waited opts b w1 d ups cancel cevs)
  have launch_events: "\<not> is_upload_event x \<and> \<not> is_cancel_event x" if "x \<in> set (trace w1)" for x
    using waited(8) that by fastforce
  have up: "upload_attempted (trace w') \<longleftrightarrow> ups \<noteq> []"
  proof
    assume "upload_attempted (trace w')"
    then obtain x where x: "x \<in> set (trace w')" "is_upload_event x"
      by (auto simp: upload_attempted_def list_ex_iff)
    with waited(9) launch_events waited(15) upload_not_cancel have "x \<in> set ups" by auto
    then show "ups \<noteq> []" by auto
  next
    assume "ups \<noteq> []"
    then obtain x where "x \<in> set ups" by (cases ups) auto
    with waited(10) waited(9) show "upload_attempted (trace w')"
      by (auto simp: upload_attempted_def list_ex_iff)
  qed
  have ca: "cancel_attempted (trace w') \<longleftrightarrow> cancel"
  proof
    assume "cancel_attempted (trace w')"
    then obtain x where x: "x \<in> set (trace w')" "is_cancel_event x"
      by (auto simp: cancel_attempted_def list_ex_iff)
    have "\<not> is_cancel_event y" if "y \<in> set ups" for y
      using waited(10) that upload_not_cancel by auto
    with x waited(9) launch_events have "x \<in> set cevs" by auto
    with waited(16) show cancel by auto
  next
    assume cancel
    with waited(16) obtain x where "x \<in> set cevs" by (cases cevs) auto
    with waited(15) waited(9) show "cancel_attempted (trace w')"
      by (auto simp: cancel_attempted_def list_ex_iff)
  qed
  have ss: "stream_succeeded (trace w') \<longleftrightarrow> list_ex is_stream_success ups"
  proof
    assume "stream_succeeded (trace w')"
    then obtain x where x: "x \<in> set (trace w')" "is_stream_success x"
      by (auto simp: stream_succeeded_def list_ex_iff)
    then have "is_upload_event x" by (simp add: stream_success_is_upload)
    with x waited(9) launch_events waited(15) upload_not_cancel have "x \<in> set ups" by auto
    with x show "list_ex is_stream_success ups" by (auto simp: list_ex_iff)
  next
    assume "list_ex is_stream_success ups"
    with waited(9) show "stream_succeeded (trace w')"
      by (auto simp: stream_succeeded_def list_ex_iff)
  qed
  have running: "observed_phase out = Some BuildPhaseRunning" if "list_ex is_stream_success ups"
    using that waited(11) by (auto simp: list_ex_iff)
  show ?thesis
    using up ca ss running waited(11) waited(12) waited(13) waited(14)
    by auto
qed

section \<open>The example runs, evaluated\<close>

lemmas run_defs = handle_def launch_poll.simps cancel_poll.simps cancelBuild_def wait_and_upload_def
  upload_def call_defs sleep_def start_world_def binary_request_def Let_def phase_defs
  Second_def Millisecond_def cancelPollInterval_def cancelPollDuration_def
  example_build_def example_options_def not_found_def conflict_def absorbed_def
  NewBadRequest_def NewTimeoutError_def NewInternalError_def NoBuildLogsMessage_def

lemma run_A_eq:
  "run_A =
     (Inr (example_build\<lparr>Phase := ''Running''\<rparr>),
      \<lparr>now = 3 * Second,
       trace =
         [EvInstantiate Second (binary_request example_options ''app'') (Inr example_build),
          EvWaitForRunning Second ''dev'' ''app-1'' (299 * Second)
            (example_build\<lparr>Phase := ''Running''\<rparr>, True, None),
          EvRESTClientFor None,
          EvNewSPDYExecutor ''app-1-build'' ''dev'' GitCloneContainer None,
          EvStream (3 * Second) ''app-1-build'' ''dev'' GitCloneContainer [1, 2, 3] None]\<rparr>)"
  by (simp add: run_A_def scenario_A_def run_defs)

lemma run_launch_fails_eq:
  "run_launch_fails =
     (Inl (not_found ''buildconfigs''),
      \<lparr>now = Second,
       trace = [EvInstantiate Second (binary_request example_options ''app'')
                  (Inl (not_found ''buildconfigs''))]\<rparr>)"
  by (simp add: run_launch_fails_def scenario_launch_fails_def scenario_A_def run_defs)

lemma run_C_eq:
  "run_C =
     (Inl (NewBadRequest (Sprintf ''build %s failed: %s: %s''
             [ArgString ''app-1'', ArgString [], ArgString []])),
      \<lparr>now = 3 * Second,
       trace =
         [EvInstantiate Second (binary_request example_options ''app'') (Inr example_build),
          EvWaitForRunning Second ''dev'' ''app-1'' (299 * Second)
            (example_build\<lparr>Phase := ''Failed'', StatusReason := ''BuildError'',
                           StatusMsg := ''exit status 1''\<rparr>, True, None)]\<rparr>)"
  by (simp add: run_C_def scenario_C_def scenario_A_def run_defs)

lemma run_D_eq:
  "run_D =
     (Inl (NewTimeoutError (Sprintf ''timed out waiting for build %s to start after %s''
             [ArgString ''app-1'', ArgDuration (300 * Second)]) 0),
      \<lparr>now = 300 * Second + 750 * Millisecond,
       trace =
         [EvInstantiate Second (binary_request example_options ''app'') (Inr example_build),
          EvWaitForRunning (3 * Second) ''dev'' ''app-1'' (297 * Second) (example_build, False, None),
          EvConvert example_build (Inr example_build),
          EvUpdateBuild (300 * Second + 250 * Millisecond) (example_build\<lparr>Cancelled := True\<rparr>) None,
          EvUpdateBuild (300 * Second + 750 * Millisecond) (example_build\<lparr>Cancelled := True\<rparr>) None]\<rparr>)"
  by (simp add: run_D_def scenario_D_def scenario_A_def run_defs)

lemma run_E_eq:
  "run_E =
     (Inl (NewInternalError (PlainError ''connection reset'')),
      \<lparr>now = 4 * Second,
       trace =
         [EvInstantiate Second (binary_request example_options ''app'') (Inr example_build),
          EvWaitForRunning Second ''dev'' ''app-1'' (299 * Second)
            (example_build\<lparr>Phase := ''Running''\<rparr>, True, None),
          EvRESTClientFor None,
          EvNewSPDYExecutor ''app-1-build'' ''dev'' GitCloneContainer None,
          EvStream (3 * Second) ''app-1-build'' ''dev'' GitCloneContainer [1, 2, 3]
            (Some (PlainError ''connection reset'')),
          EvConvert example_build (Inr example_build),
          EvUpdateBuild (3 * Second) (example_build\<lparr>Cancelled := True\<rparr>) (Some conflict),
          EvUpdateBuild (3 * Second + 500 * Millisecond) (example_build\<lparr>Cancelled := True\<rparr>)
            (Some conflict),
          EvGetBuild (3 * Second + 500 * Millisecond) ''app-1''
            (Inr (example_build\<lparr>Phase := ''Running''\<rparr>)),
          EvUpdateBuild (4 * Second) (example_build\<lparr>Phase := ''Running'', Cancelled := True\<rparr>)
            None]\<rparr>)"
  by (simp add: run_E_def scenario_E_def scenario_A_def run_defs)



lemma run_pair: "handle e options name r w = (fst (handle e options name r w), snd (handle e options name r w))"
  by simp

section \<open>The claims\<close>





text \<open>
  C3. When the stream into the container returns an error, \<^verbatim>\<open>handle\<close> returns that
  error wrapped by \<^verbatim>\<open>errors.NewInternalError\<close> (reason InternalError, code 500);
  \<^verbatim>\<open>cancelBuild\<close> runs, and whatever its conversion, its updates and its fetches do, the
  result of \<^verbatim>\<open>handle\<close> is that same error.
\<close>

theorem streaming_error_survives_cleanup:
  assumes run: "handle e options name r (start_world t0) = (res, w')"
      and ev: "EvStream t pod ns c r' (Some er) \<in> set (trace w')"
  shows "res = Inl (NewInternalError er) \<and>
         Reason (NewInternalError er) = ''InternalError'' \<and> Code (NewInternalError er) = 500 \<and>
         cancel_attempted (trace w') \<and>
         (\<forall>cv ub gb. fst (handle (e\<lparr>Convert := cv, UpdateBuild := ub, GetBuild := gb\<rparr>)
                            options name r (start_world t0)) = Inl (NewInternalError er))"
  using run
proof (cases rule: handle_cases)
  case (rejected er')
  with ev show ?thesis by simp
next
  case (launch_failed opts er')
  with ev show ?thesis by fastforce
next
  case (launched opts b w1 d out ups cancel cevs)
  have "EvStream t pod ns c r' (Some er) \<notin> set (trace w1)"
    using launched(3) by fastforce
  moreover have "EvStream t pod ns c r' (Some er) \<notin> set cevs"
    using launched(12) by fastforce
  ultimately have mem: "EvStream t pod ns c r' (Some er) \<in> set ups"
    using ev launched(5) by auto
  with launched(11) have res: "res = Inl (NewInternalError er)" by blast
  obtain latest ok err where out: "out = (latest, ok, err)" by (cases out) auto
  have w: "EvWaitForRunning (now w1) (Namespace b) (Name b) (Timeout e - (now w1 - t0)) out
             \<in> set (trace w')"
    using launched(5) by simp
  from mem launched(7) have running: "observed_phase out = Some BuildPhaseRunning" by auto
  from handle_attempts [OF run w] res running
  have "cancel_attempted (trace w')" by (auto simp: phase_defs)
  moreover have "fst (handle (e\<lparr>Convert := cv, UpdateBuild := ub, GetBuild := gb\<rparr>)
                            options name r (start_world t0)) = Inl (NewInternalError er)" for cv ub gb
    using handle_result_without_cancel [where e = e and cv = cv and ub = ub and gb = gb
        and options = options and name = name and r = r and w = "start_world t0"] run res
    by simp
  ultimately show ?thesis using res by (simp add: NewInternalError_def)
qed

theorem streaming_error_survives_cleanup_witness:
  "EvStream (3 * Second) ''app-1-build'' ''dev'' GitCloneContainer [1, 2, 3]
      (Some (PlainError ''connection reset'')) \<in> set (trace (snd run_E)) \<and>
   fst run_E = Inl (NewInternalError (PlainError ''connection reset'')) \<and>
   cancel_attempted (trace (snd run_E)) \<and>
   fst (handle (scenario_E\<lparr>Convert := (\<lambda>b. Inl (PlainError ''no conversion'')),
                            UpdateBuild := (\<lambda>b t. (0, Some conflict)),
                            GetBuild := (\<lambda>n t. (0, Inl (PlainError ''gone'')))\<rparr>)
          example_options ''app'' [1, 2, 3] (start_world 0)) =
     Inl (NewInternalError (PlainError ''connection reset''))"
proof -
  have s: "EvStream (3 * Second) ''app-1-build'' ''dev'' GitCloneContainer [1, 2, 3]
      (Some (PlainError ''connection reset'')) \<in> set (trace (snd run_E))"
    by (simp add: run_E_eq)
  from streaming_error_survives_cleanup [OF run_pair s [unfolded run_E_def]] s
  show ?thesis by (simp add: run_E_def)
qed



text \<open>
  C5, as amended. The guard exists from the moment the launch has given a build: the
  wait is called exactly when the launch succeeded, and \<^verbatim>\<open>cancelBuild\<close> runs exactly when
  the wait was called, the phase it observed is none of Error, Failed and Cancelled, and
  no stream succeeded. A return before the launch has succeeded runs no cancellation.
\<close>

theorem guard_executed_iff_armed_after_launch:
  assumes run: "handle e options name r (start_world t0) = (res, w')"
  shows "((\<exists>t ns nm rem out. EvWaitForRunning t ns nm rem out \<in> set (trace w')) \<longleftrightarrow>
            (\<exists>opts b w1. BeforeCreateBinary e (options\<lparr>OptionsName := name\<rparr>) = Inr opts \<and>
               launch_poll e (binary_request opts name) (t0 + Timeout e) (start_world t0) = (Inr b, w1))) \<and>
         (cancel_attempted (trace w') \<longleftrightarrow>
            (\<exists>t ns nm rem out. EvWaitForRunning t ns nm rem out \<in> set (trace w') \<and>
               observed_phase out \<notin> {Some BuildPhaseError, Some BuildPhaseFailed, Some BuildPhaseCancelled}) \<and>
            \<not> stream_succeeded (trace w'))"
  using run
proof (cases rule: handle_cases)
  case (rejected er)
  then show ?thesis by (simp add: cancel_attempted_def)
next
  case (launch_failed opts er)
  have "\<not> cancel_attempted (trace w')"
    using launch_failed(4) by (fastforce simp: cancel_attempted_def list_ex_iff)
  moreover have "EvWaitForRunning t ns nm rem out \<notin> set (trace w')" for t ns nm rem out
    using launch_failed(4) by fastforce
  ultimately show ?thesis using launch_failed(1,2) by auto
next
  case (launched opts b w1 d out ups cancel cevs)
  have w: "EvWaitForRunning (now w1) (Namespace b) (Name b) (Timeout e - (now w1 - t0)) out
             \<in> set (trace w')"
    using launched(5) by simp
  have same: "out' = out" if "EvWaitForRunning t ns nm rem out' \<in> set (trace w')" for t ns nm rem out'
    using run that
  proof (cases rule: handle_waited)
    case (waited opts' b' w1' d' ups' cancel' cevs')
    with launched(1,2,4) show ?thesis by simp
  qed
  have first: "(\<exists>t ns nm rem out. EvWaitForRunning t ns nm rem out \<in> set (trace w')) \<longleftrightarrow>
            (\<exists>opts b w1. BeforeCreateBinary e (options\<lparr>OptionsName := name\<rparr>) = Inr opts \<and>
               launch_poll e (binary_request opts name) (t0 + Timeout e) (start_world t0) = (Inr b, w1))"
    using w launched(1,2) by blast
  have second: "cancel_attempted (trace w') \<longleftrightarrow>
            (\<exists>t ns nm rem out. EvWaitForRunning t ns nm rem out \<in> set (trace w') \<and>
               observed_phase out \<notin> {Some BuildPhaseError, Some BuildPhaseFailed, Some BuildPhaseCancelled}) \<and>
            \<not> stream_succeeded (trace w')"
    using handle_attempts [OF run w] w same by blast
  from first second show ?thesis by blast
qed

theorem guard_executed_iff_armed_after_launch_witness:
  "cancel_attempted (trace (snd run_E)) \<and> \<not> stream_succeeded (trace (snd run_E)) \<and>
   \<not> cancel_attempted (trace (snd run_A)) \<and> stream_succeeded (trace (snd run_A))"
proof -
  have "stream_succeeded (trace (snd run_A))" "\<not> stream_succeeded (trace (snd run_E))"
    by (simp_all add: run_A_eq run_E_eq stream_succeeded_def)
  moreover have "EvWaitForRunning Second ''dev'' ''app-1'' (299 * Second)
            (example_build\<lparr>Phase := ''Running''\<rparr>, True, None) \<in> set (trace (snd run_E))"
    by (simp add: run_E_eq)
  moreover have "observed_phase (example_build\<lparr>Phase := ''Running''\<rparr>, True, None)
     \<notin> {Some BuildPhaseError, Some BuildPhaseFailed, Some BuildPhaseCancelled}"
    by (simp add: observed_phase_def phase_defs example_build_def)
  ultimately show ?thesis
    using guard_executed_iff_armed_after_launch [OF run_pair, of scenario_A example_options "''app''" "[1, 2, 3]" 0]
      guard_executed_iff_armed_after_launch [OF run_pair, of scenario_E example_options "''app''" "[1, 2, 3]" 0]
    unfolding run_A_def run_E_def by blast
qed

text \<open>
  C5, as stated, fails. When the launch fails (here with a not-found error for a build
  configuration) the handler returns that error; nothing has disarmed a guard (no wait
  was made, no stream succeeded), and yet \<^verbatim>\<open>cancelBuild\<close> does not run: the deferred
  function is registered only after the launch loop (line 222), and there is no build
  to cancel before.
\<close>

theorem guard_not_armed_before_launch_counterexample:
  "fst run_launch_fails = Inl (not_found ''buildconfigs'') \<and>
   \<not> list_ex is_wait_event (trace (snd run_launch_fails)) \<and>
   \<not> stream_succeeded (trace (snd run_launch_fails)) \<and>
   \<not> cancel_attempted (trace (snd run_launch_fails))"
  by (simp add: run_launch_fails_eq cancel_attempted_def stream_succeeded_def)

text \<open>
  C6. The code at the failing input: in scenario C the wait returns a build in phase
  Failed with reason BuildError and message "exit status 1". \<^verbatim>\<open>cancelBuild\<close> does not run,
  as the claim says; but the rejection is formatted with the reason and the message of
  the build the launch returned (\<^verbatim>\<open>build.Status\<close> at line 246, both empty here), not with
  those of the snapshot that reached Failed (\<^verbatim>\<open>latest\<close>).
\<close>

theorem failed_build_reports_launch_snapshot:
  "EvWaitForRunning Second ''dev'' ''app-1'' (299 * Second)
      (example_build\<lparr>Phase := ''Failed'', StatusReason := ''BuildError'',
                     StatusMsg := ''exit status 1''\<rparr>, True, None) \<in> set (trace (snd run_C)) \<and>
   fst run_C =
     Inl (NewBadRequest (Sprintf ''build %s failed: %s: %s''
            [ArgString ''app-1'', ArgString (StatusReason example_build),
             ArgString (StatusMsg example_build)])) \<and>
   StatusReason example_build = [] \<and> StatusMsg example_build = [] \<and>
   ArgString ''BuildError'' \<notin> set (case fst run_C of Inl er \<Rightarrow> error_args er | Inr b \<Rightarrow> []) \<and>
   ArgString ''exit status 1'' \<notin> set (case fst run_C of Inl er \<Rightarrow> error_args er | Inr b \<Rightarrow> []) \<and>
   \<not> cancel_attempted (trace (snd run_C))"
  by (simp add: run_C_eq example_build_def NewBadRequest_def cancel_attempted_def)

text \<open>
  C7, as amended. When the wait ends with neither an error nor \<^verbatim>\<open>ok\<close>, the handler returns
  a timeout error whose message is formatted with the name of the build and the configured
  overall timeout \<^verbatim>\<open>h.r.Timeout\<close>; the upload is not attempted, and \<^verbatim>\<open>cancelBuild\<close> runs.
\<close>

theorem start_timeout_names_configured_timeout:
  assumes run: "handle e options name r (start_world t0) = (res, w')"
      and ev: "EvWaitForRunning t ns nm rem (latest, False, None) \<in> set (trace w')"
  shows "res = Inl (NewTimeoutError (Sprintf ''timed out waiting for build %s to start after %s''
                      [ArgString nm, ArgDuration (Timeout e)]) 0) \<and>
         \<not> upload_attempted (trace w') \<and> cancel_attempted (trace w')"
proof -
  have no_phase: "observed_phase (latest, False, None) = None"
    by (simp add: observed_phase_def)
  from handle_attempts [OF run ev] no_phase
  have gate: "\<not> upload_attempted (trace w')" "cancel_attempted (trace w')"
    by auto
  from run ev have "res = Inl (NewTimeoutError (Sprintf ''timed out waiting for build %s to start after %s''
                      [ArgString nm, ArgDuration (Timeout e)]) 0)"
  proof (cases rule: handle_waited)
    case (waited opts b w1 d ups cancel cevs)
    from waited(7) waited(3,4,5,6) waited(17) show ?thesis
      by (simp add: wait_and_upload_def call_WaitForRunningBuild_def)
  qed
  with gate show ?thesis by simp
qed

theorem start_timeout_names_configured_timeout_witness:
  "fst run_D = Inl (NewTimeoutError (Sprintf ''timed out waiting for build %s to start after %s''
                      [ArgString ''app-1'', ArgDuration (300 * Second)]) 0) \<and>
   \<not> upload_attempted (trace (snd run_D)) \<and> cancel_attempted (trace (snd run_D))"
proof -
  have d: "EvWaitForRunning (3 * Second) ''dev'' ''app-1'' (297 * Second) (example_build, False, None)
             \<in> set (trace (snd run_D))"
    by (simp add: run_D_eq)
  from start_timeout_names_configured_timeout [OF run_pair d [unfolded run_D_def]]
  show ?thesis by (simp add: run_D_def scenario_D_def scenario_A_def)
qed

text \<open>
  C7, as stated, fails. In scenario D the launch takes three seconds, the wait is given the
  297 seconds that remain and returns after 297.25 seconds, 300.25 seconds after the entry
  of the handler. The message names none of these: not the time the wait lasted, not the
  time it was given, not the time since the entry. It names the 300 seconds of the
  configured timeout.
\<close>

theorem start_timeout_counterexample:
  "EvWaitForRunning (3 * Second) ''dev'' ''app-1'' (297 * Second) (example_build, False, None)
     \<in> set (trace (snd run_D)) \<and>
   WaitForRunningBuild scenario_D ''dev'' ''app-1'' (297 * Second) (3 * Second) =
     (nat (297 * Second + 250 * Millisecond), (example_build, False, None)) \<and>
   \<not> names_duration (fst run_D) (297 * Second + 250 * Millisecond) \<and>
   \<not> names_duration (fst run_D) (297 * Second) \<and>
   \<not> names_duration (fst run_D) (300 * Second + 250 * Millisecond) \<and>
   names_duration (fst run_D) (Timeout scenario_D)"
  by (simp add: run_D_eq names_duration_def NewTimeoutError_def scenario_D_def scenario_A_def
      Second_def Millisecond_def)

text \<open>
  C8. The launch and the wait share one deadline: the wait is called with the configured
  timeout less the time that passed between the entry of the handler and the end of the
  launch loop, so that the time of the call plus the time it is given is the entry time
  plus the timeout, the deadline the launch loop polled against.
\<close>

theorem wait_receives_remainder:
  assumes run: "handle e options name r (start_world t0) = (res, w')"
      and ev: "EvWaitForRunning t ns nm rem out \<in> set (trace w')"
  shows "rem = Timeout e - (t - t0) \<and> t + rem = t0 + Timeout e \<and>
         (\<exists>opts b w1.
            BeforeCreateBinary e (options\<lparr>OptionsName := name\<rparr>) = Inr opts \<and>
            launch_poll e (binary_request opts name) (t0 + Timeout e) (start_world t0) = (Inr b, w1) \<and>
            now w1 = t \<and> Namespace b = ns \<and> Name b = nm)"
  using run ev
proof (cases rule: handle_waited)
  case (waited opts b w1 d ups cancel cevs)
  then show ?thesis by auto
qed

theorem wait_receives_remainder_witness:
  "EvWaitForRunning (3 * Second) ''dev'' ''app-1'' (297 * Second) (example_build, False, None)
     \<in> set (trace (snd run_D)) \<and>
   297 * Second = Timeout scenario_D - (3 * Second - 0) \<and>
   3 * Second + 297 * Second = 0 + Timeout scenario_D"
proof -
  have d: "EvWaitForRunning (3 * Second) ''dev'' ''app-1'' (297 * Second) (example_build, False, None)
             \<in> set (trace (snd run_D))"
    by (simp add: run_D_eq)
  from wait_receives_remainder [OF run_pair d [unfolded run_D_def]] d
  show ?thesis by simp
qed

text \<open>
  C9. When the stream into the container returns no error, \<^verbatim>\<open>cancelBuild\<close> does not run,
  and \<^verbatim>\<open>ServeHTTP\<close> responds with status 201 and the snapshot that the wait returned.
\<close>

theorem streaming_success_returns_latest:
  assumes serve: "ServeHTTP e options name body (start_world t0) = (resp, w')"
      and ev: "EvStream t pod ns c body' None \<in> set (trace w')"
  shows "\<not> cancel_attempted (trace w') \<and>
         (\<exists>t' ns' nm rem latest ok err.
            EvWaitForRunning t' ns' nm rem (latest, ok, err) \<in> set (trace w') \<and>
            resp = ResponderObject 201 latest)"
proof -
  obtain res where run: "handle e options name body (start_world t0) = (res, w')"
    and resp: "resp = (case res of Inl er \<Rightarrow> ResponderError er | Inr b \<Rightarrow> ResponderObject StatusCreated b)"
    using serve by (auto simp: ServeHTTP_def split: prod.splits sum.splits)
  have ss: "stream_succeeded (trace w')"
    using ev by (auto simp: stream_succeeded_def list_ex_iff intro!: bexI [of _ "EvStream t pod ns c body' None"])
  from run show ?thesis
  proof (cases rule: handle_cases)
    case (rejected er)
    with ev show ?thesis by simp
  next
    case (launch_failed opts er)
    with ev show ?thesis by fastforce
  next
    case (launched opts b w1 d out ups cancel cevs)
    obtain latest ok err where out: "out = (latest, ok, err)" by (cases out) auto
    have w: "EvWaitForRunning (now w1) (Namespace b) (Name b) (Timeout e - (now w1 - t0)) (latest, ok, err)
               \<in> set (trace w')"
      using launched(5) out by simp
    from handle_attempts [OF run w] ss out
    have "res = Inr latest" "\<not> cancel_attempted (trace w')" by auto
    with resp have "resp = ResponderObject 201 latest" by (simp add: StatusCreated_def)
    with w \<open>\<not> cancel_attempted (trace w')\<close> show ?thesis by blast
  qed
qed

theorem streaming_success_returns_latest_witness:
  "EvStream (3 * Second) ''app-1-build'' ''dev'' GitCloneContainer [1, 2, 3] None \<in> set (trace (snd run_A)) \<and>
   \<not> cancel_attempted (trace (snd run_A)) \<and>
   fst (ServeHTTP scenario_A example_options ''app'' [1, 2, 3] (start_world 0)) =
     ResponderObject 201 (example_build\<lparr>Phase := ''Running''\<rparr>)"
proof -
  have serve: "ServeHTTP scenario_A example_options ''app'' [1, 2, 3] (start_world 0) =
     (ResponderObject StatusCreated (example_build\<lparr>Phase := ''Running''\<rparr>), snd run_A)"
    using run_A_eq by (simp add: ServeHTTP_def run_A_def)
  have s: "EvStream (3 * Second) ''app-1-build'' ''dev'' GitCloneContainer [1, 2, 3] None
             \<in> set (trace (snd run_A))"
    by (simp add: run_A_eq)
  from streaming_success_returns_latest [OF serve s] s serve
  show ?thesis by (simp add: StatusCreated_def)
qed

text \<open>
  C10. \<^verbatim>\<open>Create\<close> passes to the generator the request with a single manual trigger cause
  when the request came with a nil list, and the request as it is otherwise. The request
  of the binary path has no trigger cause; it has a revision if and only if the commit of
  the options is not empty, made of the commit, the message, the author and the
  committer of the options, and without a commit none of these reaches the request.
  Every call of the generator in a run of \<^verbatim>\<open>handle\<close> carries that request.
\<close>

theorem trigger_cause_and_revision:
  "(beforeCreate obj = Inr request \<and> createValidation request = None \<longrightarrow>
      Create beforeCreate createValidation instantiate obj =
        instantiate (if TriggeredBy request = None
                     then request\<lparr>TriggeredBy := Some [\<lparr>CauseMessage = BuildTriggerCauseManualMsg\<rparr>]\<rparr>
                     else request)) \<and>
   TriggeredBy (binary_request opts name) = None \<and>
   (Revision (binary_request opts name) \<noteq> None \<longleftrightarrow> Commit opts \<noteq> []) \<and>
   (Commit opts = [] \<longrightarrow>
      binary_request opts name =
        \<lparr>RequestName = name, Revision = None, Binary = Some \<lparr>BinaryAsFile = AsFile opts\<rparr>,
         TriggeredBy = None\<rparr>) \<and>
   (Commit opts \<noteq> [] \<longrightarrow>
      Revision (binary_request opts name) =
        Some \<lparr>Git = Some
          \<lparr>Committer = \<lparr>UserName = CommitterName opts, UserEmail = CommitterEmail opts\<rparr>,
           Author = \<lparr>UserName = AuthorName opts, UserEmail = AuthorEmail opts\<rparr>,
           GitMessage = Message opts, GitCommit = Commit opts\<rparr>\<rparr>) \<and>
   (\<forall>res w' t req result.
      handle e options name r (start_world t0) = (res, w') \<and>
      EvInstantiate t req result \<in> set (trace w') \<longrightarrow>
      (\<exists>opts'. BeforeCreateBinary e (options\<lparr>OptionsName := name\<rparr>) = Inr opts' \<and>
                req = binary_request opts' name \<and> TriggeredBy req = None))"
proof -
  have create: "beforeCreate obj = Inr request \<and> createValidation request = None \<longrightarrow>
      Create beforeCreate createValidation instantiate obj =
        instantiate (if TriggeredBy request = None
                     then request\<lparr>TriggeredBy := Some [\<lparr>CauseMessage = BuildTriggerCauseManualMsg\<rparr>]\<rparr>
                     else request)"
    by (simp add: Create_def)
  have binary: "TriggeredBy (binary_request opts name) = None"
    "Revision (binary_request opts name) \<noteq> None \<longleftrightarrow> Commit opts \<noteq> []"
    "Commit opts = [] \<longrightarrow>
      binary_request opts name =
        \<lparr>RequestName = name, Revision = None, Binary = Some \<lparr>BinaryAsFile = AsFile opts\<rparr>,
         TriggeredBy = None\<rparr>"
    "Commit opts \<noteq> [] \<longrightarrow>
      Revision (binary_request opts name) =
        Some \<lparr>Git = Some
          \<lparr>Committer = \<lparr>UserName = CommitterName opts, UserEmail = CommitterEmail opts\<rparr>,
           Author = \<lparr>UserName = AuthorName opts, UserEmail = AuthorEmail opts\<rparr>,
           GitMessage = Message opts, GitCommit = Commit opts\<rparr>\<rparr>"
    by (simp_all add: binary_request_def)
  have sent: "\<exists>opts'. BeforeCreateBinary e (options\<lparr>OptionsName := name\<rparr>) = Inr opts' \<and>
                req = binary_request opts' name \<and> TriggeredBy req = None"
    if run: "handle e options name r (start_world t0) = (res, w')"
      and ev: "EvInstantiate t req result \<in> set (trace w')" for res w' t req result
    using run
  proof (cases rule: handle_cases)
    case (rejected er)
    with ev show ?thesis by simp
  next
    case (launch_failed opts' er)
    from launch_failed(4) ev have "req = binary_request opts' name" by fastforce
    with launch_failed(1) show ?thesis by (simp add: binary_request_def)
  next
    case (launched opts' b w1 d out ups cancel cevs)
    have "EvInstantiate t req result \<notin> set ups" using launched(6) by fastforce
    moreover have "EvInstantiate t req result \<notin> set cevs" using launched(12) by fastforce
    ultimately have "EvInstantiate t req result \<in> set (trace w1)"
      using ev launched(5) by auto
    with launched(3) have "req = binary_request opts' name" by fastforce
    with launched(1) show ?thesis by (simp add: binary_request_def)
  qed
  from create binary sent show ?thesis by blast
qed

theorem trigger_cause_and_revision_witness:
  "Create Inr (\<lambda>request. None) Inr example_request =
     Inr (example_request\<lparr>TriggeredBy := Some [\<lparr>CauseMessage = BuildTriggerCauseManualMsg\<rparr>]\<rparr>) \<and>
   Revision (binary_request example_options ''app'') = None \<and>
   Revision (binary_request (example_options\<lparr>Commit := ''0f3a''\<rparr>) ''app'') =
     Some \<lparr>Git = Some \<lparr>Committer = \<lparr>UserName = [], UserEmail = []\<rparr>,
                         Author = \<lparr>UserName = ''ann'', UserEmail = []\<rparr>,
                         GitMessage = ''wip'', GitCommit = ''0f3a''\<rparr>\<rparr> \<and>
   EvInstantiate Second (binary_request example_options ''app'') (Inr example_build)
     \<in> set (trace (snd run_A)) \<and>
   binary_request example_options ''app'' =
     binary_request (example_options\<lparr>OptionsName := ''app''\<rparr>) ''app''"
proof -
  have ev: "EvInstantiate Second (binary_request example_options ''app'') (Inr example_build)
     \<in> set (trace (snd run_A))"
    by (simp add: run_A_eq)
  have before: "BeforeCreateBinary scenario_A (example_options\<lparr>OptionsName := ''app''\<rparr>) =
      Inr (example_options\<lparr>OptionsName := ''app''\<rparr>)"
    by (simp add: scenario_A_def)
  note c = trigger_cause_and_revision [where beforeCreate = Inr and obj = example_request
      and request = example_request and createValidation = "\<lambda>request. None" and instantiate = Inr
      and opts = example_options and name = "''app''" and e = scenario_A
      and options = example_options and r = "[1, 2, 3]" and ?t0.0 = 0]
  note c' = trigger_cause_and_revision [where beforeCreate = Inr and obj = example_request
      and request = example_request and createValidation = "\<lambda>request. None" and instantiate = Inr
      and opts = "example_options\<lparr>Commit := ''0f3a''\<rparr>" and name = "''app''" and e = scenario_A
      and options = example_options and r = "[1, 2, 3]" and ?t0.0 = 0]
  from c have 1: "Create Inr (\<lambda>request. None) Inr example_request =
     Inr (example_request\<lparr>TriggeredBy := Some [\<lparr>CauseMessage = BuildTriggerCauseManualMsg\<rparr>]\<rparr>)"
    by (simp add: example_request_def)
  from c have 2: "Revision (binary_request example_options ''app'') = None"
    by (simp add: example_options_def)
  from c' have 3: "Revision (binary_request (example_options\<lparr>Commit := ''0f3a''\<rparr>) ''app'') =
     Some \<lparr>Git = Some \<lparr>Committer = \<lparr>UserName = [], UserEmail = []\<rparr>,
                         Author = \<lparr>UserName = ''ann'', UserEmail = []\<rparr>,
                         GitMessage = ''wip'', GitCommit = ''0f3a''\<rparr>\<rparr>"
    by (simp add: example_options_def)
  from c have "\<exists>opts'. BeforeCreateBinary scenario_A (example_options\<lparr>OptionsName := ''app''\<rparr>) = Inr opts' \<and>
      binary_request example_options ''app'' = binary_request opts' ''app''"
    using ev [unfolded run_A_def] run_pair [of scenario_A example_options "''app''" "[1, 2, 3]" "start_world 0"]
    by blast
  with before have 4: "binary_request example_options ''app'' =
     binary_request (example_options\<lparr>OptionsName := ''app''\<rparr>) ''app''"
    by simp
  from 1 2 3 ev 4 show ?thesis by simp
qed

end
